theory Spec2Isabelle
  imports Main
begin

section \<open>Python strings and POSIX paths\<close>

text \<open>
  A Python \<open>str\<close> is modelled as a \<open>string\<close> (a list of characters). The only
  characters the program inspects are the ASCII characters of \<open>s3://\<close>, \<open>/\<close> and
  \<open>.csv\<close>; \<open>str.lower\<close> is modelled on the ASCII letters, the only ones whose
  lower-case form is one of \<open>c\<close>, \<open>s\<close>, \<open>v\<close>.
\<close>

definition startswith :: "string \<Rightarrow> string \<Rightarrow> bool" where
  "startswith s p = (take (length p) s = p)"

definition endswith :: "string \<Rightarrow> string \<Rightarrow> bool" where
  "endswith s p = (length p \<le> length s \<and> drop (length s - length p) s = p)"

definition lower_char :: "char \<Rightarrow> char" where
  "lower_char c =
     (if (65::nat) \<le> of_char c \<and> of_char c \<le> (90::nat)
      then char_of (of_char c + (32::nat)) else c)"

definition lower :: "string \<Rightarrow> string" where
  "lower s = map lower_char s"

text \<open>\<open>s.split(sep, 1)\<close>: at most one split, at the first occurrence of \<open>sep\<close>.\<close>

definition split1 :: "char \<Rightarrow> string \<Rightarrow> string list" where
  "split1 sep s =
     (case dropWhile (\<lambda>c. c \<noteq> sep) s of
        [] \<Rightarrow> [s]
      | _ # rest \<Rightarrow> [takeWhile (\<lambda>c. c \<noteq> sep) s, rest])"

text \<open>
  \<open>os.path.basename\<close> of \<open>posixpath\<close>: \<open>i = p.rfind('/') + 1; return p[i:]\<close>, the part
  after the last \<open>/\<close>.
\<close>

definition basename :: "string \<Rightarrow> string" where
  "basename p = rev (takeWhile (\<lambda>c. c \<noteq> CHR ''/'') (rev p))"

text \<open>\<open>os.path.join(a, b)\<close> of \<open>posixpath\<close>, for two components.\<close>

definition path_join :: "string \<Rightarrow> string \<Rightarrow> string" where
  "path_join a b =
     (if startswith b ''/'' then b
      else if a = [] \<or> endswith a ''/'' then a @ b
      else a @ ''/'' @ b)"


section \<open>Exceptions\<close>

text \<open>
  The exceptions the program meets, each with the text \<open>str(e)\<close> gives. All of them are
  subclasses of \<open>Exception\<close>; \<open>ClientError\<close> is the one of \<open>botocore\<close>.
\<close>

datatype exn =
    ValueError string
  | ClientError string
  | FileNotFoundError string
  | OtherException string

fun str_exn :: "exn \<Rightarrow> string" where
  "str_exn (ValueError m) = m"
| "str_exn (ClientError m) = m"
| "str_exn (FileNotFoundError m) = m"
| "str_exn (OtherException m) = m"

section \<open>The world outside the program\<close>

text \<open>
  What the program reads and changes: the paths present on the local file system, the calls
  it makes to the operating system and to the storage SDK (in the order made), the
  records handed to the logger, and standard output.
\<close>

datatype event =
    MakeDirs string
  | Boto3Client
  | UploadFile string string string
  | DownloadFile string string string
  | ListObjectsV2 string string
  | GetObject string string
  | PutObject string string string

datatype log_record = INFO string | ERROR string

record world =
  local_paths :: "string list"
  effects :: "event list"
  logged :: "log_record list"
  stdout :: string

text \<open>
  A \<open>DataFrame\<close>, as far as the program looks at it: \<open>len(df)\<close> is the number of rows.
\<close>

record table =
  columns :: "string list"
  rows :: "string list list"

text \<open>
  The behaviour of the collaborators, which the program does not control. Every operation
  makes each kind of call at most once, so the outcome of a call is a function of its
  arguments: \<open>None\<close> (or \<open>Inr\<close>) when the call returns, the exception when it raises.
  A listing response carries the \<open>Key\<close> of each object under \<open>Contents\<close>, or has no
  \<open>Contents\<close> entry (\<open>None\<close>). \<open>read_csv_result\<close> and \<open>to_csv_result\<close> stand for
  \<open>pandas.read_csv\<close> and \<open>DataFrame.to_csv(index=False)\<close>.
\<close>

record env =
  makedirs_error :: "string \<Rightarrow> exn option"
  client_error :: "exn option"
  upload_file_result :: "string \<Rightarrow> string \<Rightarrow> string \<Rightarrow> exn option"
  download_file_result :: "string \<Rightarrow> string \<Rightarrow> string \<Rightarrow> exn option"
  list_objects_v2_result :: "string \<Rightarrow> string \<Rightarrow> exn + string list option"
  get_object_result :: "string \<Rightarrow> string \<Rightarrow> exn + string"
  put_object_result :: "string \<Rightarrow> string \<Rightarrow> string \<Rightarrow> exn option"
  read_csv_result :: "string \<Rightarrow> exn + table"
  to_csv_result :: "table \<Rightarrow> exn + string"

subsection \<open>Statements that may raise\<close>

text \<open>
  A statement takes the world and gives back the value it returns (\<open>Inr\<close>) or the
  exception it raises (\<open>Inl\<close>), with the world as it has become. What a statement did
  before raising stays done.
\<close>

type_synonym 'a prog = "world \<Rightarrow> (exn + 'a) \<times> world"

definition ret :: "'a \<Rightarrow> 'a prog" where
  "ret x = (\<lambda>w. (Inr x, w))"

definition lift :: "exn + 'a \<Rightarrow> 'a prog" where
  "lift r = (\<lambda>w. (r, w))"

definition and_then :: "'a prog \<Rightarrow> ('a \<Rightarrow> 'b prog) \<Rightarrow> 'b prog" where
  "and_then m f =
     (\<lambda>w. case m w of (Inl e, w') \<Rightarrow> (Inl e, w') | (Inr x, w') \<Rightarrow> f x w')"

definition try_except :: "'a prog \<Rightarrow> (exn \<Rightarrow> 'a prog) \<Rightarrow> 'a prog" where
  "try_except m h =
     (\<lambda>w. case m w of (Inl e, w') \<Rightarrow> h e w' | (Inr x, w') \<Rightarrow> (Inr x, w'))"

definition logger_info :: "string \<Rightarrow> unit prog" where
  "logger_info msg = (\<lambda>w. (Inr (), w\<lparr>logged := logged w @ [INFO msg]\<rparr>))"

definition logger_error :: "string \<Rightarrow> unit prog" where
  "logger_error msg = (\<lambda>w. (Inr (), w\<lparr>logged := logged w @ [ERROR msg]\<rparr>))"

definition call :: "event \<Rightarrow> world \<Rightarrow> world" where
  "call ev w = w\<lparr>effects := effects w @ [ev]\<rparr>"

text \<open>
  \<open>os.path.exists\<close>: never raises on a string; the empty path does not exist.
\<close>

definition path_exists :: "world \<Rightarrow> string \<Rightarrow> bool" where
  "path_exists w p = (p \<noteq> [] \<and> p \<in> set (local_paths w))"

definition os_path_exists :: "string \<Rightarrow> bool prog" where
  "os_path_exists p = (\<lambda>w. (Inr (path_exists w p), w))"

text \<open>
  \<open>os.makedirs\<close>: raises \<open>FileNotFoundError\<close> on the empty path, and whatever the
  operating system refuses with otherwise; when it returns, the directory exists.
\<close>

definition os_makedirs :: "env \<Rightarrow> string \<Rightarrow> unit prog" where
  "os_makedirs E p =
     (\<lambda>w. let w' = call (MakeDirs p) w in
        if p = [] then (Inl (FileNotFoundError ''[Errno 2] No such file or directory''), w')
        else case makedirs_error E p of
               Some e \<Rightarrow> (Inl e, w')
             | None \<Rightarrow> (Inr (), w'\<lparr>local_paths := p # local_paths w'\<rparr>))"

definition boto3_client :: "env \<Rightarrow> unit prog" where
  "boto3_client E =
     (\<lambda>w. let w' = call Boto3Client w in
        case client_error E of Some e \<Rightarrow> (Inl e, w') | None \<Rightarrow> (Inr (), w'))"

definition s3_upload_file :: "env \<Rightarrow> string \<Rightarrow> string \<Rightarrow> string \<Rightarrow> unit prog" where
  "s3_upload_file E local_file_path bucket_name s3_key =
     (\<lambda>w. let w' = call (UploadFile local_file_path bucket_name s3_key) w in
        case upload_file_result E local_file_path bucket_name s3_key of
          Some e \<Rightarrow> (Inl e, w')
        | None \<Rightarrow> (Inr (), w'))"

definition s3_download_file :: "env \<Rightarrow> string \<Rightarrow> string \<Rightarrow> string \<Rightarrow> unit prog" where
  "s3_download_file E bucket_name s3_key local_file_path =
     (\<lambda>w. let w' = call (DownloadFile bucket_name s3_key local_file_path) w in
        case download_file_result E bucket_name s3_key local_file_path of
          Some e \<Rightarrow> (Inl e, w')
        | None \<Rightarrow> (Inr (), w'\<lparr>local_paths := local_file_path # local_paths w'\<rparr>))"

definition s3_list_objects_v2 :: "env \<Rightarrow> string \<Rightarrow> string \<Rightarrow> string list option prog" where
  "s3_list_objects_v2 E bucket_name prefix =
     (\<lambda>w. (list_objects_v2_result E bucket_name prefix,
            call (ListObjectsV2 bucket_name prefix) w))"

definition s3_get_object :: "env \<Rightarrow> string \<Rightarrow> string \<Rightarrow> string prog" where
  "s3_get_object E bucket_name key =
     (\<lambda>w. (get_object_result E bucket_name key, call (GetObject bucket_name key) w))"

definition s3_put_object :: "env \<Rightarrow> string \<Rightarrow> string \<Rightarrow> string \<Rightarrow> unit prog" where
  "s3_put_object E bucket_name key body =
     (\<lambda>w. let w' = call (PutObject bucket_name key body) w in
        case put_object_result E bucket_name key body of
          Some e \<Rightarrow> (Inl e, w')
        | None \<Rightarrow> (Inr (), w'))"

text \<open>
  The two \<open>except\<close> clauses every operation ends with: \<open>except ClientError\<close> first, then
  \<open>except Exception\<close>; both log an error and return the operation's failure value.
\<close>

definition except_clauses :: "string \<Rightarrow> 'a \<Rightarrow> exn \<Rightarrow> 'a prog" where
  "except_clauses client_msg failure e =
     (case e of
        ClientError m \<Rightarrow>
          and_then (logger_error (client_msg @ str_exn e)) (\<lambda>_. ret failure)
      | _ \<Rightarrow>
          and_then (logger_error (''Unexpected error: '' @ str_exn e)) (\<lambda>_. ret failure))"

section \<open>parse_s3_path\<close>

definition parse_s3_path :: "string \<Rightarrow> exn + (string \<times> string)" where
  "parse_s3_path s3_path =
     (if \<not> startswith s3_path ''s3://''
      then Inl (ValueError (''S3 path must start with '' @ [CHR 0x27] @ ''s3://'' @ [CHR 0x27]))
      else
        let path_without_prefix = drop 5 s3_path;
            parts = split1 CHR ''/'' path_without_prefix;
            bucket_name = hd parts;
            key = (if length parts > 1 then parts ! 1 else [])
        in Inr (bucket_name, key))"

section \<open>upload_csv_to_s3\<close>

definition upload_try :: "env \<Rightarrow> string \<Rightarrow> string \<Rightarrow> bool prog" where
  "upload_try E local_file_path s3_path =
     and_then (lift (parse_s3_path s3_path)) (\<lambda>(bucket_name, key_prefix).
       let filename = basename local_file_path;
           key_prefix = (if key_prefix \<noteq> [] \<and> \<not> endswith key_prefix ''/''
                         then key_prefix @ ''/'' else key_prefix);
           s3_key = key_prefix @ filename
       in
       and_then (boto3_client E) (\<lambda>_.
       and_then (logger_info (''Uploading '' @ local_file_path @ '' to s3://''
                              @ bucket_name @ ''/'' @ s3_key)) (\<lambda>_.
       and_then (s3_upload_file E local_file_path bucket_name s3_key) (\<lambda>_.
       and_then (logger_info (''Upload successful: s3://'' @ bucket_name @ ''/'' @ s3_key)) (\<lambda>_.
       ret True)))))"

definition upload_csv_to_s3 :: "env \<Rightarrow> string \<Rightarrow> string \<Rightarrow> bool prog" where
  "upload_csv_to_s3 E local_file_path s3_path =
     (\<lambda>w. if \<not> path_exists w local_file_path
           then and_then (logger_error (''Local file not found: '' @ local_file_path))
                  (\<lambda>_. ret False) w
           else try_except (upload_try E local_file_path s3_path)
                  (except_clauses ''Error uploading file to S3: '' False) w)"

section \<open>download_csv_from_s3\<close>

definition download_try :: "env \<Rightarrow> string \<Rightarrow> string \<Rightarrow> string option prog" where
  "download_try E s3_path local_directory =
     and_then (lift (parse_s3_path s3_path)) (\<lambda>(bucket_name, s3_key).
       and_then (os_path_exists local_directory) (\<lambda>present.
       and_then (if \<not> present then os_makedirs E local_directory else ret ()) (\<lambda>_.
       let filename = basename s3_key;
           local_file_path = path_join local_directory filename
       in
       and_then (boto3_client E) (\<lambda>_.
       and_then (logger_info (''Downloading s3://'' @ bucket_name @ ''/'' @ s3_key
                              @ '' to '' @ local_file_path)) (\<lambda>_.
       and_then (s3_download_file E bucket_name s3_key local_file_path) (\<lambda>_.
       and_then (logger_info (''Download successful: '' @ local_file_path)) (\<lambda>_.
       ret (Some local_file_path))))))))"

definition download_csv_from_s3 :: "env \<Rightarrow> string \<Rightarrow> string \<Rightarrow> string option prog" where
  "download_csv_from_s3 E s3_path local_directory =
     try_except (download_try E s3_path local_directory)
       (except_clauses ''Error downloading file from S3: '' None)"

section \<open>list_csv_files_in_s3\<close>

text \<open>The loop over \<open>response['Contents']\<close>, with \<open>csv_files\<close> as it grows.\<close>

fun csv_loop :: "string \<Rightarrow> string list \<Rightarrow> string list \<Rightarrow> string list" where
  "csv_loop bucket_name csv_files [] = csv_files"
| "csv_loop bucket_name csv_files (key # objs) =
     csv_loop bucket_name
       (if endswith (lower key) ''.csv''
        then csv_files @ [''s3://'' @ bucket_name @ ''/'' @ key]
        else csv_files)
       objs"

definition list_try :: "env \<Rightarrow> string \<Rightarrow> string list prog" where
  "list_try E s3_path =
     and_then (lift (parse_s3_path s3_path)) (\<lambda>(bucket_name, prefix).
       and_then (boto3_client E) (\<lambda>_.
       and_then (logger_info (''Listing CSV files in s3://'' @ bucket_name @ ''/'' @ prefix)) (\<lambda>_.
       and_then (s3_list_objects_v2 E bucket_name prefix) (\<lambda>response.
       ret (case response of
              None \<Rightarrow> []
            | Some contents \<Rightarrow> csv_loop bucket_name [] contents)))))"

definition list_csv_files_in_s3 :: "env \<Rightarrow> string \<Rightarrow> string list prog" where
  "list_csv_files_in_s3 E s3_path =
     try_except (list_try E s3_path) (except_clauses ''Error listing files in S3: '' [])"

section \<open>read_csv_from_s3 and write_dataframe_to_s3\<close>





section \<open>main\<close>

text \<open>
  The namespace \<open>parser.parse_args()\<close> returns. \<open>main\<close> ends in \<open>sys.exit\<close>; its model
  returns the exit status of the process. An exception that reached \<open>main\<close> would end
  the process with status 1; a namespace with no flag set (which the parser never
  returns) would fall off the end, status 0.
\<close>

record args =
  arg_upload :: bool
  arg_download :: bool
  arg_list :: bool
  source :: string
  destination :: string

fun print_all :: "string list \<Rightarrow> world \<Rightarrow> world" where
  "print_all [] w = w"
| "print_all (file # files) w = print_all files (w\<lparr>stdout := stdout w @ file @ [CHR 0x0A]\<rparr>)"

definition main :: "env \<Rightarrow> args \<Rightarrow> world \<Rightarrow> int \<times> world" where
  "main E a w =
     (if arg_upload a then
        (case upload_csv_to_s3 E (source a) (destination a) w of
           (Inl e, w') \<Rightarrow> (1, w')
         | (Inr success, w') \<Rightarrow> (if success then 0 else 1, w'))
      else if arg_download a then
        (case download_csv_from_s3 E (source a) (destination a) w of
           (Inl e, w') \<Rightarrow> (1, w')
         | (Inr local_file, w') \<Rightarrow>
             (if local_file \<noteq> None \<and> local_file \<noteq> Some [] then 0 else 1, w'))
      else if arg_list a then
        (case list_csv_files_in_s3 E (source a) w of
           (Inl e, w') \<Rightarrow> (1, w')
         | (Inr csv_files, w') \<Rightarrow> (0, print_all csv_files w'))
      else (0, w))"


section \<open>The specification's words, and sample collaborators\<close>

text \<open>
  The destination key as the specification words it: the prefix, a separator whenever the
  prefix does not end in one, the base name.
\<close>

definition spec_destination_key :: "string \<Rightarrow> string \<Rightarrow> string" where
  "spec_destination_key prefix local_file_path =
     prefix @ (if endswith prefix ''/'' then [] else ''/'') @ basename local_file_path"

text \<open>
  A backend on which every call returns, and whose listing is the one of the
  specification's scenario; a backend on which every request raises \<open>ClientError\<close>; a
  world whose only local path is the file \<open>a.csv\<close>.
\<close>

definition demo_backend :: env where
  "demo_backend =
     \<lparr> makedirs_error = (\<lambda>_. None),
       client_error = None,
       upload_file_result = (\<lambda>_ _ _. None),
       download_file_result = (\<lambda>_ _ _. None),
       list_objects_v2_result = (\<lambda>_ _. Inr (Some [''a.csv'', ''b.txt'', ''C.CSV''])),
       get_object_result = (\<lambda>_ _. Inr ''x''),
       put_object_result = (\<lambda>_ _ _. None),
       read_csv_result = (\<lambda>_. Inr \<lparr>columns = [''x''], rows = []\<rparr>),
       to_csv_result = (\<lambda>_. Inr ''x'') \<rparr>"

definition failing_backend :: env where
  "failing_backend =
     demo_backend
       \<lparr> upload_file_result := (\<lambda>_ _ _. Some (ClientError ''AccessDenied'')),
         download_file_result := (\<lambda>_ _ _. Some (ClientError ''AccessDenied'')),
         list_objects_v2_result := (\<lambda>_ _. Inl (ClientError ''AccessDenied'')),
         get_object_result := (\<lambda>_ _. Inl (ClientError ''AccessDenied'')),
         put_object_result := (\<lambda>_ _ _. Some (ClientError ''AccessDenied'')) \<rparr>"

definition demo_world :: world where
  "demo_world = \<lparr> local_paths = [''a.csv''], effects = [], logged = [], stdout = [] \<rparr>"

section \<open>Properties of parse_s3_path\<close>

text \<open>The definitions of the statements, unfolded together in the proofs below.\<close>

lemmas prog_defs =
  ret_def lift_def and_then_def try_except_def logger_info_def logger_error_def call_def
  os_path_exists_def os_makedirs_def boto3_client_def s3_upload_file_def
  s3_download_file_def s3_list_objects_v2_def s3_get_object_def s3_put_object_def

lemma dropWhile_no_sep: "sep \<notin> set s \<Longrightarrow> dropWhile (\<lambda>c. c \<noteq> sep) s = []"
  by (induction s) auto

lemma takeWhile_first_sep: "sep \<notin> set b \<Longrightarrow> takeWhile (\<lambda>c. c \<noteq> sep) (b @ sep # k) = b"
  by (induction b) auto

lemma dropWhile_first_sep: "sep \<notin> set b \<Longrightarrow> dropWhile (\<lambda>c. c \<noteq> sep) (b @ sep # k) = sep # k"
  by (induction b) auto

lemma split1_no_sep: "sep \<notin> set s \<Longrightarrow> split1 sep s = [s]"
  by (simp add: split1_def dropWhile_no_sep)

lemma split1_at_first: "sep \<notin> set b \<Longrightarrow> split1 sep (b @ sep # k) = [b, k]"
  by (simp add: split1_def dropWhile_first_sep takeWhile_first_sep)

lemma startswith_iff: "startswith s p \<longleftrightarrow> (\<exists>rest. s = p @ rest)"
proof
  assume "startswith s p"
  then have "s = p @ drop (length p) s"
    unfolding startswith_def by (metis append_take_drop_id)
  then show "\<exists>rest. s = p @ rest" ..
next
  assume "\<exists>rest. s = p @ rest"
  then show "startswith s p" by (auto simp: startswith_def)
qed

lemma parse_bucket_key:
  "CHR ''/'' \<notin> set b \<Longrightarrow> parse_s3_path (''s3://'' @ b @ CHR ''/'' # k) = Inr (b, k)"
  by (simp add: parse_s3_path_def startswith_def split1_at_first)

lemma parse_bucket_only:
  "CHR ''/'' \<notin> set b \<Longrightarrow> parse_s3_path (''s3://'' @ b) = Inr (b, [])"
  by (simp add: parse_s3_path_def startswith_def split1_no_sep)

text \<open>
  Claim C1. For an input \<open>s3://b/k\<close>, where \<open>b\<close> is the part up to the first \<open>/\<close>
  after the prefix (so \<open>b\<close> holds no \<open>/\<close>) and \<open>k\<close> is everything after that
  \<open>/\<close>, \<open>parse_s3_path\<close> returns the bucket \<open>b\<close> and the key \<open>k\<close>; for an input
  \<open>s3://b\<close> with no \<open>/\<close> after the bucket, the key is the empty string.
\<close>

theorem parse_s3_path_valid:
  assumes "CHR ''/'' \<notin> set b"
  shows "parse_s3_path (''s3://'' @ b @ ''/'' @ k) = Inr (b, k)
       \<and> parse_s3_path (''s3://'' @ b) = Inr (b, [])"
  using assms parse_bucket_key[of b k] parse_bucket_only[of b] by simp

theorem parse_s3_path_valid_witness:
  "CHR ''/'' \<notin> set ''my-bucket''
   \<and> parse_s3_path ''s3://my-bucket/dir/file.csv'' = Inr (''my-bucket'', ''dir/file.csv'')
   \<and> parse_s3_path ''s3://my-bucket'' = Inr (''my-bucket'', [])"
  using parse_s3_path_valid[of "''my-bucket''" "''dir/file.csv''"] by simp

text \<open>
  Claim C2. For every input that does not start with the prefix \<open>s3://\<close>,
  \<open>parse_s3_path\<close> raises its path-format error, a \<open>ValueError\<close>, and returns no
  bucket and key.
\<close>

theorem parse_s3_path_invalid:
  assumes "\<not> (\<exists>rest. s3_path = ''s3://'' @ rest)"
  shows "\<exists>msg. parse_s3_path s3_path = Inl (ValueError msg)"
  using assms by (simp add: parse_s3_path_def startswith_iff)

theorem parse_s3_path_invalid_witness:
  "\<not> (\<exists>rest. ''http://bucket/key'' = ''s3://'' @ rest)
   \<and> (\<exists>msg. parse_s3_path ''http://bucket/key'' = Inl (ValueError msg))"
proof -
  have h: "\<not> (\<exists>rest. ''http://bucket/key'' = ''s3://'' @ rest)" by simp
  from parse_s3_path_invalid[OF h] h show ?thesis by simp
qed

text \<open>
  Claim C10. \<open>parse_s3_path\<close> does not tell a bucket path with a trailing slash from one
  without: \<open>s3://b\<close> and \<open>s3://b/\<close> are different inputs and both give the bucket
  \<open>b\<close> with the empty key.
\<close>

theorem parse_s3_path_trailing_slash:
  assumes "CHR ''/'' \<notin> set b"
  shows "parse_s3_path (''s3://'' @ b) = Inr (b, [])
       \<and> parse_s3_path (''s3://'' @ b @ ''/'') = Inr (b, [])
       \<and> ''s3://'' @ b \<noteq> ''s3://'' @ b @ ''/''"
  using assms parse_bucket_key[of b "[]"] parse_bucket_only[of b] by simp

theorem parse_s3_path_trailing_slash_witness:
  "CHR ''/'' \<notin> set ''b''
   \<and> parse_s3_path ''s3://b'' = Inr (''b'', [])
   \<and> parse_s3_path ''s3://b/'' = Inr (''b'', [])
   \<and> \<not> inj parse_s3_path"
proof -
  have both: "parse_s3_path ''s3://b'' = Inr (''b'', []) \<and> parse_s3_path ''s3://b/'' = Inr (''b'', [])"
    using parse_s3_path_trailing_slash[of "''b''"] by simp
  then have same: "parse_s3_path ''s3://b'' = parse_s3_path ''s3://b/''" by simp
  have "\<not> inj parse_s3_path"
  proof
    assume "inj parse_s3_path"
    with same show False by (simp add: inj_eq)
  qed
  with both show ?thesis by simp
qed

section \<open>Properties of the operations\<close>

lemma try_except_clauses:
  "fst (try_except m (except_clauses msg failure) w) =
     (case fst (m w) of Inl e \<Rightarrow> Inr failure | Inr x \<Rightarrow> Inr x)"
  by (simp add: try_except_def except_clauses_def and_then_def logger_error_def ret_def
           split: prod.splits sum.splits exn.splits)

lemma try_except_clauses_effects:
  "effects (snd (try_except m (except_clauses msg failure) w)) = effects (snd (m w))"
  by (simp add: try_except_def except_clauses_def and_then_def logger_error_def ret_def
           split: prod.splits sum.splits exn.splits)

lemma try_except_clauses_local_paths:
  "local_paths (snd (try_except m (except_clauses msg failure) w)) = local_paths (snd (m w))"
  by (simp add: try_except_def except_clauses_def and_then_def logger_error_def ret_def
           split: prod.splits sum.splits exn.splits)

lemma try_except_clauses_stdout:
  "stdout (snd (try_except m (except_clauses msg failure) w)) = stdout (snd (m w))"
  by (simp add: try_except_def except_clauses_def and_then_def logger_error_def ret_def
           split: prod.splits sum.splits exn.splits)

subsection \<open>upload\<close>

lemma upload_try_effects:
  assumes "parse_s3_path s3_path = Inr (bucket_name, key_prefix)"
      and "client_error E = None"
  shows "effects (snd (upload_try E local_file_path s3_path w)) =
           effects w @ [Boto3Client,
             UploadFile local_file_path bucket_name
               ((if key_prefix = [] \<or> endswith key_prefix ''/'' then key_prefix
                 else key_prefix @ ''/'') @ basename local_file_path)]"
  using assms
  by (simp add: upload_try_def prog_defs Let_def split: option.splits)

text \<open>
  Claim C3, as the code has it. When the local file exists, the destination parses to a
  bucket and a key prefix, and the client is created, upload hands the backend the key
  made of the prefix and the base name of the local path, with a \<open>/\<close> between them
  when the prefix is not empty and does not end in \<open>/\<close>. For the empty prefix the key
  is the base name alone: no separator is put in front of it.
\<close>

theorem upload_destination_key:
  assumes "path_exists w local_file_path"
      and "parse_s3_path s3_path = Inr (bucket_name, key_prefix)"
      and "client_error E = None"
  shows "effects (snd (upload_csv_to_s3 E local_file_path s3_path w)) =
           effects w @ [Boto3Client,
             UploadFile local_file_path bucket_name
               ((if key_prefix = [] \<or> endswith key_prefix ''/'' then key_prefix
                 else key_prefix @ ''/'') @ basename local_file_path)]"
  using assms(1) upload_try_effects[OF assms(2,3)]
  by (simp add: upload_csv_to_s3_def try_except_clauses_effects)

lemma parse_demo_dir: "parse_s3_path ''s3://b/dir'' = Inr (''b'', ''dir'')"
  using parse_bucket_key[of "''b''" "''dir''"] by simp

lemma parse_demo_bucket: "parse_s3_path ''s3://b'' = Inr (''b'', [])"
  using parse_bucket_only[of "''b''"] by simp

theorem upload_destination_key_witness:
  "path_exists demo_world ''a.csv''
   \<and> parse_s3_path ''s3://b/dir'' = Inr (''b'', ''dir'')
   \<and> client_error demo_backend = None
   \<and> effects (snd (upload_csv_to_s3 demo_backend ''a.csv'' ''s3://b/dir'' demo_world)) =
        [Boto3Client, UploadFile ''a.csv'' ''b'' ''dir/a.csv'']"
proof -
  have 1: "path_exists demo_world ''a.csv''" by (simp add: path_exists_def demo_world_def)
  have 3: "client_error demo_backend = None" by (simp add: demo_backend_def)
  from upload_destination_key[OF 1 parse_demo_dir 3] 1 3 parse_demo_dir
  show ?thesis by (simp add: demo_world_def endswith_def basename_def)
qed

text \<open>
  The empty prefix does not end in \<open>/\<close>, so the wording "a separator whenever the
  prefix lacks a trailing one" gives the key \<open>/a.csv\<close> for the destination
  \<open>s3://b\<close>; the call the program makes is for the key \<open>a.csv\<close>.
\<close>

theorem upload_empty_prefix_counterexample:
  "effects (snd (upload_csv_to_s3 demo_backend ''a.csv'' ''s3://b'' demo_world)) =
     [Boto3Client, UploadFile ''a.csv'' ''b'' ''a.csv'']
   \<and> spec_destination_key [] ''a.csv'' = ''/a.csv''"
proof -
  have 1: "path_exists demo_world ''a.csv''" by (simp add: path_exists_def demo_world_def)
  have 3: "client_error demo_backend = None" by (simp add: demo_backend_def)
  have "effects (snd (upload_try demo_backend ''a.csv'' ''s3://b'' demo_world)) =
     [Boto3Client, UploadFile ''a.csv'' ''b'' ''a.csv'']"
    using upload_try_effects[OF parse_demo_bucket 3, of "''a.csv''" demo_world]
    by (simp add: demo_world_def basename_def)
  with 1 show ?thesis
    by (simp add: upload_csv_to_s3_def try_except_clauses_effects spec_destination_key_def
          endswith_def basename_def)
qed

text \<open>
  Claim C4. When the local path does not exist, upload returns \<open>False\<close> and the list of
  calls made to the operating system and the backend is what it was: no client is
  created and no request is sent.
\<close>

theorem upload_missing_file:
  assumes "\<not> path_exists w local_file_path"
  shows "fst (upload_csv_to_s3 E local_file_path s3_path w) = Inr False
       \<and> effects (snd (upload_csv_to_s3 E local_file_path s3_path w)) = effects w"
  using assms by (simp add: upload_csv_to_s3_def and_then_def logger_error_def ret_def)

theorem upload_missing_file_witness:
  "\<not> path_exists demo_world ''missing.csv''
   \<and> fst (upload_csv_to_s3 demo_backend ''missing.csv'' ''s3://b/dir'' demo_world) = Inr False
   \<and> effects (snd (upload_csv_to_s3 demo_backend ''missing.csv'' ''s3://b/dir'' demo_world)) = []"
proof -
  have 1: "\<not> path_exists demo_world ''missing.csv''"
    by (simp add: path_exists_def demo_world_def)
  from upload_missing_file[OF 1, of demo_backend "''s3://b/dir''"] 1
  show ?thesis by (simp add: demo_world_def)
qed

subsection \<open>list\<close>

lemma csv_loop_filter:
  "csv_loop bucket_name csv_files contents =
     csv_files @ map (\<lambda>key. ''s3://'' @ bucket_name @ ''/'' @ key)
                    (filter (\<lambda>key. endswith (lower key) ''.csv'') contents)"
  by (induction contents arbitrary: csv_files) simp_all

lemma list_try_result:
  assumes "parse_s3_path s3_path = Inr (bucket_name, prefix)"
      and "client_error E = None"
  shows "fst (list_try E s3_path w) =
           (case list_objects_v2_result E bucket_name prefix of
              Inl e \<Rightarrow> Inl e
            | Inr None \<Rightarrow> Inr []
            | Inr (Some contents) \<Rightarrow> Inr (csv_loop bucket_name [] contents))"
  using assms
  by (simp add: list_try_def prog_defs Let_def split: option.splits sum.splits)

text \<open>
  Claim C5. When the path parses, the client is created and the backend answers the
  listing request, the result is, in the order of the response, one \<open>s3://bucket/key\<close>
  for each key whose lower-case form ends in \<open>.csv\<close>, and nothing else (the empty list
  for a response with no contents). For the response \<open>a.csv\<close>, \<open>b.txt\<close>, \<open>C.CSV\<close>
  under \<open>s3://bucket/p/\<close> this is \<open>s3://bucket/a.csv\<close>, \<open>s3://bucket/C.CSV\<close>.
\<close>

theorem list_csv_files_filter:
  assumes "parse_s3_path s3_path = Inr (bucket_name, prefix)"
      and "client_error E = None"
      and "list_objects_v2_result E bucket_name prefix = Inr response"
  shows "fst (list_csv_files_in_s3 E s3_path w) =
           Inr (case response of
                  None \<Rightarrow> []
                | Some contents \<Rightarrow>
                    map (\<lambda>key. ''s3://'' @ bucket_name @ ''/'' @ key)
                        (filter (\<lambda>key. endswith (lower key) ''.csv'') contents))"
  using list_try_result[OF assms(1,2), of w] assms(3)
  by (simp add: list_csv_files_in_s3_def try_except_clauses csv_loop_filter
           split: option.splits)

lemma parse_demo_listing: "parse_s3_path ''s3://bucket/p/'' = Inr (''bucket'', ''p/'')"
  using parse_bucket_key[of "''bucket''" "''p/''"] by simp

theorem list_csv_files_filter_witness:
  "parse_s3_path ''s3://bucket/p/'' = Inr (''bucket'', ''p/'')
   \<and> client_error demo_backend = None
   \<and> list_objects_v2_result demo_backend ''bucket'' ''p/'' = Inr (Some [''a.csv'', ''b.txt'', ''C.CSV''])
   \<and> fst (list_csv_files_in_s3 demo_backend ''s3://bucket/p/'' demo_world) =
        Inr [''s3://bucket/a.csv'', ''s3://bucket/C.CSV'']"
proof -
  have 2: "client_error demo_backend = None" by (simp add: demo_backend_def)
  have 3: "list_objects_v2_result demo_backend ''bucket'' ''p/'' = Inr (Some [''a.csv'', ''b.txt'', ''C.CSV''])"
    by (simp add: demo_backend_def)
  from list_csv_files_filter[OF parse_demo_listing 2 3, of demo_world] 2 3 parse_demo_listing
  show ?thesis by (simp add: endswith_def lower_def lower_char_def char_of_eq_iff)
qed

subsection \<open>No exception leaves an operation\<close>

lemma try_except_clauses_raised:
  "fst (m w) = Inl e \<Longrightarrow> fst (try_except m (except_clauses msg failure) w) = Inr failure"
  by (simp add: try_except_clauses)

lemma try_except_clauses_returns:
  "\<exists>r. fst (try_except m (except_clauses msg failure) w) = Inr r"
  by (cases "fst (m w)") (simp_all add: try_except_clauses)


lemma failing_backend_fields:
  "client_error failing_backend = None"
  "makedirs_error failing_backend = (\<lambda>_. None)"
  "upload_file_result failing_backend = (\<lambda>_ _ _. Some (ClientError ''AccessDenied''))"
  "download_file_result failing_backend = (\<lambda>_ _ _. Some (ClientError ''AccessDenied''))"
  "list_objects_v2_result failing_backend = (\<lambda>_ _. Inl (ClientError ''AccessDenied''))"
  "get_object_result failing_backend = (\<lambda>_ _. Inl (ClientError ''AccessDenied''))"
  "put_object_result failing_backend = (\<lambda>_ _ _. Some (ClientError ''AccessDenied''))"
  "to_csv_result failing_backend = (\<lambda>_. Inr ''x'')"
  by (simp_all add: failing_backend_def demo_backend_def)

lemma parse_demo_file: "parse_s3_path ''s3://b/dir/a.csv'' = Inr (''b'', ''dir/a.csv'')"
  using parse_bucket_key[of "''b''" "''dir/a.csv''"] by simp


subsection \<open>download\<close>

lemma basename_no_slash: "CHR ''/'' \<notin> set (basename p)"
  by (auto simp: basename_def dest: set_takeWhileD)

lemma startswith_slash: "startswith s ''/'' \<Longrightarrow> CHR ''/'' \<in> set s"
  by (cases s) (auto simp: startswith_def)

lemma path_join_nonempty: "a \<noteq> [] \<Longrightarrow> path_join a b = [] \<Longrightarrow> startswith b ''/''"
  by (auto simp: path_join_def split: if_splits)

lemma download_try_returns:
  assumes "fst (download_try E s3_path local_directory w) = Inr r"
  shows "local_directory \<noteq> [] \<and>
         (\<exists>bucket_name s3_key. r = Some (path_join local_directory (basename s3_key)))"
  using assms
  by (auto simp: download_try_def prog_defs Let_def path_exists_def
           split: sum.splits option.splits if_splits prod.splits)

lemma download_result_nonempty:
  assumes "fst (download_csv_from_s3 E s3_path local_directory w) = Inr (Some p)"
  shows "p \<noteq> []"
proof
  assume "p = []"
  from assms have "fst (download_try E s3_path local_directory w) = Inr (Some p)"
    by (simp add: download_csv_from_s3_def try_except_clauses split: sum.splits)
  from download_try_returns[OF this] obtain s3_key where
    d: "local_directory \<noteq> []" and p: "p = path_join local_directory (basename s3_key)"
    by auto
  from path_join_nonempty[OF d] p \<open>p = []\<close> have "startswith (basename s3_key) ''/''" by simp
  from startswith_slash[OF this] basename_no_slash show False by blast
qed

lemma download_try_effects:
  assumes "parse_s3_path s3_path = Inr (bucket_name, s3_key)"
      and "\<not> path_exists w local_directory"
      and "local_directory \<noteq> []"
      and "makedirs_error E local_directory = None"
  shows "effects (snd (download_try E s3_path local_directory w)) =
           effects w @ [MakeDirs local_directory, Boto3Client]
           @ (if client_error E = None
              then [DownloadFile bucket_name s3_key (path_join local_directory (basename s3_key))]
              else [])"
    and "local_directory \<in> set (local_paths (snd (download_try E s3_path local_directory w)))"
    and "client_error E \<noteq> None \<or>
         download_file_result E bucket_name s3_key
           (path_join local_directory (basename s3_key)) \<noteq> None
         \<Longrightarrow> \<exists>e. fst (download_try E s3_path local_directory w) = Inl e"
  using assms
  by (auto simp: download_try_def prog_defs Let_def split: option.splits)

text \<open>
  Claim C8, as the code has it. When the source path parses, the local directory is
  absent and \<open>os.makedirs\<close> succeeds on it, download creates the directory before it
  creates the client and sends the request, the directory exists when download
  returns, and a failure of the client or of the transfer makes download return
  \<open>None\<close> with the directory still there.
\<close>

theorem download_keeps_created_directory:
  assumes "parse_s3_path s3_path = Inr (bucket_name, s3_key)"
      and "\<not> path_exists w local_directory"
      and "local_directory \<noteq> []"
      and "makedirs_error E local_directory = None"
  shows "effects (snd (download_csv_from_s3 E s3_path local_directory w)) =
           effects w @ [MakeDirs local_directory, Boto3Client]
           @ (if client_error E = None
              then [DownloadFile bucket_name s3_key (path_join local_directory (basename s3_key))]
              else [])
       \<and> path_exists (snd (download_csv_from_s3 E s3_path local_directory w)) local_directory
       \<and> (client_error E \<noteq> None \<or>
          download_file_result E bucket_name s3_key
            (path_join local_directory (basename s3_key)) \<noteq> None
          \<longrightarrow> fst (download_csv_from_s3 E s3_path local_directory w) = Inr None)"
proof -
  note t = download_try_effects[OF assms]
  have "effects (snd (download_csv_from_s3 E s3_path local_directory w)) =
           effects w @ [MakeDirs local_directory, Boto3Client]
           @ (if client_error E = None
              then [DownloadFile bucket_name s3_key (path_join local_directory (basename s3_key))]
              else [])"
    unfolding download_csv_from_s3_def try_except_clauses_effects by (rule t(1))
  moreover have "path_exists (snd (download_csv_from_s3 E s3_path local_directory w)) local_directory"
    using t(2) assms(3)
    by (simp add: path_exists_def download_csv_from_s3_def try_except_clauses_local_paths)
  moreover have "client_error E \<noteq> None \<or>
          download_file_result E bucket_name s3_key
            (path_join local_directory (basename s3_key)) \<noteq> None
          \<longrightarrow> fst (download_csv_from_s3 E s3_path local_directory w) = Inr None"
    unfolding download_csv_from_s3_def using t(3) by (blast intro: try_except_clauses_raised)
  ultimately show ?thesis by blast
qed

theorem download_keeps_created_directory_witness:
  "parse_s3_path ''s3://b/dir/a.csv'' = Inr (''b'', ''dir/a.csv'')
   \<and> \<not> path_exists demo_world ''out''
   \<and> makedirs_error failing_backend ''out'' = None
   \<and> download_file_result failing_backend ''b'' ''dir/a.csv'' ''out/a.csv'' \<noteq> None
   \<and> effects (snd (download_csv_from_s3 failing_backend ''s3://b/dir/a.csv'' ''out'' demo_world)) =
        [MakeDirs ''out'', Boto3Client, DownloadFile ''b'' ''dir/a.csv'' ''out/a.csv'']
   \<and> path_exists (snd (download_csv_from_s3 failing_backend ''s3://b/dir/a.csv'' ''out'' demo_world)) ''out''
   \<and> fst (download_csv_from_s3 failing_backend ''s3://b/dir/a.csv'' ''out'' demo_world) = Inr None"
proof -
  have 2: "\<not> path_exists demo_world ''out''" by (simp add: path_exists_def demo_world_def)
  have 3: "''out'' \<noteq> []" by simp
  have 4: "makedirs_error failing_backend ''out'' = None" by (simp add: failing_backend_fields)
  have j: "path_join ''out'' (basename ''dir/a.csv'') = ''out/a.csv''"
    by (simp add: path_join_def basename_def startswith_def endswith_def)
  from download_keeps_created_directory[OF parse_demo_file 2 3 4] 2 4 parse_demo_file
  show ?thesis by (simp add: j failing_backend_fields demo_world_def)
qed

text \<open>
  The path is parsed before the directory is looked at: for a source that does not start
  with \<open>s3://\<close> and an absent directory \<open>out\<close>, download returns \<open>None\<close>, calls
  neither \<open>os.makedirs\<close> nor the backend, and \<open>out\<close> is still absent.
\<close>

theorem download_invalid_path_counterexample:
  "\<not> path_exists demo_world ''out''
   \<and> fst (download_csv_from_s3 demo_backend ''http://b/a.csv'' ''out'' demo_world) = Inr None
   \<and> effects (snd (download_csv_from_s3 demo_backend ''http://b/a.csv'' ''out'' demo_world)) = []
   \<and> \<not> path_exists (snd (download_csv_from_s3 demo_backend ''http://b/a.csv'' ''out'' demo_world)) ''out''"
proof -
  have p: "parse_s3_path ''http://b/a.csv'' =
             Inl (ValueError (''S3 path must start with '' @ [CHR 0x27] @ ''s3://'' @ [CHR 0x27]))"
    by (simp add: parse_s3_path_def startswith_def)
  have t: "download_try demo_backend ''http://b/a.csv'' ''out'' demo_world =
             (Inl (ValueError (''S3 path must start with '' @ [CHR 0x27] @ ''s3://'' @ [CHR 0x27])),
              demo_world)"
    by (simp add: download_try_def and_then_def lift_def p)
  show ?thesis
    unfolding download_csv_from_s3_def try_except_clauses try_except_clauses_effects
      try_except_clauses_local_paths path_exists_def t
    by (simp add: demo_world_def)
qed

subsection \<open>main\<close>

lemma print_all_stdout:
  "stdout (print_all files w) = stdout w @ concat (map (\<lambda>file. file @ [CHR 0x0A]) files)"
  by (induction files arbitrary: w) simp_all

lemma list_try_stdout: "stdout (snd (list_try E s3_path w)) = stdout w"
  by (auto simp: list_try_def prog_defs Let_def split: sum.splits option.splits prod.splits)

lemma list_stdout: "stdout (snd (list_csv_files_in_s3 E s3_path w)) = stdout w"
  by (simp add: list_csv_files_in_s3_def try_except_clauses_stdout list_try_stdout)

text \<open>
  Claim C7. With \<open>--upload\<close> the exit status is 0 when upload returns \<open>True\<close> and 1
  otherwise; with \<open>--download\<close> it is 1 when download returns \<open>None\<close> and 0 otherwise
  (a path that download returns is never empty, so it always counts as true); with
  \<open>--list\<close> the exit status is 0 whatever the listing did, and standard output grows by
  each returned path followed by a newline, in order.
\<close>

theorem main_exit_status:
  "(arg_upload a \<longrightarrow>
      main E a w =
        (if fst (upload_csv_to_s3 E (source a) (destination a) w) = Inr True then 0 else 1,
         snd (upload_csv_to_s3 E (source a) (destination a) w)))
 \<and> (\<not> arg_upload a \<and> arg_download a \<longrightarrow>
      main E a w =
        (if fst (download_csv_from_s3 E (source a) (destination a) w) = Inr None then 1 else 0,
         snd (download_csv_from_s3 E (source a) (destination a) w)))
 \<and> (\<not> arg_upload a \<and> \<not> arg_download a \<and> arg_list a \<longrightarrow>
      (\<exists>csv_files.
         fst (list_csv_files_in_s3 E (source a) w) = Inr csv_files
       \<and> fst (main E a w) = 0
       \<and> stdout (snd (main E a w)) =
           stdout w @ concat (map (\<lambda>file. file @ [CHR 0x0A]) csv_files)))"
proof -
  have up: "arg_upload a \<longrightarrow>
      main E a w =
        (if fst (upload_csv_to_s3 E (source a) (destination a) w) = Inr True then 0 else 1,
         snd (upload_csv_to_s3 E (source a) (destination a) w))"
    by (cases "upload_csv_to_s3 E (source a) (destination a) w")
       (auto simp: main_def split: sum.splits)
  have down: "\<not> arg_upload a \<and> arg_download a \<longrightarrow>
      main E a w =
        (if fst (download_csv_from_s3 E (source a) (destination a) w) = Inr None then 1 else 0,
         snd (download_csv_from_s3 E (source a) (destination a) w))"
  proof (cases "download_csv_from_s3 E (source a) (destination a) w")
    case (Pair r w')
    obtain local_file where r: "r = Inr local_file"
      using try_except_clauses_returns[of "download_try E (source a) (destination a)"
              "''Error downloading file from S3: ''" None w] Pair
      by (auto simp: download_csv_from_s3_def)
    have "local_file \<noteq> Some []"
      using download_result_nonempty[of E "source a" "destination a" w "[]"] Pair r by auto
    with Pair r show ?thesis by (simp add: main_def)
  qed
  have ls: "\<not> arg_upload a \<and> \<not> arg_download a \<and> arg_list a \<longrightarrow>
      (\<exists>csv_files.
         fst (list_csv_files_in_s3 E (source a) w) = Inr csv_files
       \<and> fst (main E a w) = 0
       \<and> stdout (snd (main E a w)) =
           stdout w @ concat (map (\<lambda>file. file @ [CHR 0x0A]) csv_files))"
  proof (cases "list_csv_files_in_s3 E (source a) w")
    case (Pair r w')
    obtain csv_files where r: "r = Inr csv_files"
      using try_except_clauses_returns[of "list_try E (source a)"
              "''Error listing files in S3: ''" "[]" w] Pair
      by (auto simp: list_csv_files_in_s3_def)
    have "stdout w' = stdout w" using list_stdout[of E "source a" w] Pair by simp
    with Pair r show ?thesis by (simp add: main_def print_all_stdout)
  qed
  from up down ls show ?thesis by blast
qed

lemma demo_backend_fields:
  "client_error demo_backend = None"
  "makedirs_error demo_backend = (\<lambda>_. None)"
  "upload_file_result demo_backend = (\<lambda>_ _ _. None)"
  "download_file_result demo_backend = (\<lambda>_ _ _. None)"
  "list_objects_v2_result demo_backend = (\<lambda>_ _. Inr (Some [''a.csv'', ''b.txt'', ''C.CSV'']))"
  by (simp_all add: demo_backend_def)

lemma demo_upload_returns:
  "fst (upload_csv_to_s3 demo_backend ''a.csv'' ''s3://b/dir'' demo_world) = Inr True"
proof -
  have "fst (upload_try demo_backend ''a.csv'' ''s3://b/dir'' demo_world) = Inr True"
    by (simp add: upload_try_def prog_defs parse_demo_dir demo_backend_fields Let_def)
  moreover have "path_exists demo_world ''a.csv''"
    by (simp add: path_exists_def demo_world_def)
  ultimately show ?thesis by (simp add: upload_csv_to_s3_def try_except_clauses)
qed

lemma failing_download_returns:
  "fst (download_csv_from_s3 failing_backend ''s3://b/dir/a.csv'' ''out'' demo_world) = Inr None"
proof -
  have "fst (download_try failing_backend ''s3://b/dir/a.csv'' ''out'' demo_world) =
          Inl (ClientError ''AccessDenied'')"
    by (simp add: download_try_def prog_defs parse_demo_file failing_backend_fields Let_def
          path_exists_def demo_world_def)
  then show ?thesis by (simp add: download_csv_from_s3_def try_except_clauses)
qed

lemma demo_list_returns:
  "fst (list_csv_files_in_s3 demo_backend ''s3://bucket/p/'' demo_world) =
     Inr [''s3://bucket/a.csv'', ''s3://bucket/C.CSV'']"
  using list_try_result[OF parse_demo_listing demo_backend_fields(1), of demo_world]
  by (simp add: list_csv_files_in_s3_def try_except_clauses demo_backend_fields
        endswith_def lower_def lower_char_def char_of_eq_iff)

lemma failing_list_returns:
  "fst (list_csv_files_in_s3 failing_backend ''s3://bucket/p/'' demo_world) = Inr []"
  using list_try_result[OF parse_demo_listing failing_backend_fields(1), of demo_world]
  by (simp add: list_csv_files_in_s3_def try_except_clauses failing_backend_fields)

theorem main_exit_status_witness:
  "fst (main demo_backend
         \<lparr>arg_upload = True, arg_download = False, arg_list = False,
          source = ''a.csv'', destination = ''s3://b/dir''\<rparr> demo_world) = 0
 \<and> fst (main failing_backend
         \<lparr>arg_upload = False, arg_download = True, arg_list = False,
          source = ''s3://b/dir/a.csv'', destination = ''out''\<rparr> demo_world) = 1
 \<and> fst (main demo_backend
         \<lparr>arg_upload = False, arg_download = False, arg_list = True,
          source = ''s3://bucket/p/'', destination = ''unused''\<rparr> demo_world) = 0
 \<and> stdout (snd (main demo_backend
         \<lparr>arg_upload = False, arg_download = False, arg_list = True,
          source = ''s3://bucket/p/'', destination = ''unused''\<rparr> demo_world)) =
      ''s3://bucket/a.csv'' @ [CHR 0x0A] @ ''s3://bucket/C.CSV'' @ [CHR 0x0A]
 \<and> fst (main failing_backend
         \<lparr>arg_upload = False, arg_download = False, arg_list = True,
          source = ''s3://bucket/p/'', destination = ''unused''\<rparr> demo_world) = 0
 \<and> stdout (snd (main failing_backend
         \<lparr>arg_upload = False, arg_download = False, arg_list = True,
          source = ''s3://bucket/p/'', destination = ''unused''\<rparr> demo_world)) = []"
proof -
  have u: "fst (main demo_backend
         \<lparr>arg_upload = True, arg_download = False, arg_list = False,
          source = ''a.csv'', destination = ''s3://b/dir''\<rparr> demo_world) = 0"
    using main_exit_status[of "\<lparr>arg_upload = True, arg_download = False, arg_list = False,
          source = ''a.csv'', destination = ''s3://b/dir''\<rparr>" demo_backend demo_world]
      demo_upload_returns
    by simp
  have d: "fst (main failing_backend
         \<lparr>arg_upload = False, arg_download = True, arg_list = False,
          source = ''s3://b/dir/a.csv'', destination = ''out''\<rparr> demo_world) = 1"
    using main_exit_status[of "\<lparr>arg_upload = False, arg_download = True, arg_list = False,
          source = ''s3://b/dir/a.csv'', destination = ''out''\<rparr>" failing_backend demo_world]
      failing_download_returns
    by simp
  have l: "fst (main demo_backend
         \<lparr>arg_upload = False, arg_download = False, arg_list = True,
          source = ''s3://bucket/p/'', destination = ''unused''\<rparr> demo_world) = 0
    \<and> stdout (snd (main demo_backend
         \<lparr>arg_upload = False, arg_download = False, arg_list = True,
          source = ''s3://bucket/p/'', destination = ''unused''\<rparr> demo_world)) =
      ''s3://bucket/a.csv'' @ [CHR 0x0A] @ ''s3://bucket/C.CSV'' @ [CHR 0x0A]"
    using main_exit_status[of "\<lparr>arg_upload = False, arg_download = False, arg_list = True,
          source = ''s3://bucket/p/'', destination = ''unused''\<rparr>" demo_backend demo_world]
      demo_list_returns
    by (auto simp: demo_world_def)
  have f: "fst (main failing_backend
         \<lparr>arg_upload = False, arg_download = False, arg_list = True,
          source = ''s3://bucket/p/'', destination = ''unused''\<rparr> demo_world) = 0
    \<and> stdout (snd (main failing_backend
         \<lparr>arg_upload = False, arg_download = False, arg_list = True,
          source = ''s3://bucket/p/'', destination = ''unused''\<rparr> demo_world)) = []"
    using main_exit_status[of "\<lparr>arg_upload = False, arg_download = False, arg_list = True,
          source = ''s3://bucket/p/'', destination = ''unused''\<rparr>" failing_backend demo_world]
      failing_list_returns
    by (auto simp: demo_world_def)
  from u d l f show ?thesis by blast
qed

end
